theory Spec2Isabelle
  imports Main "HOL-Library.AList"
begin

section \<open>JavaScript values\<close>

text \<open>
  The gateway indexes arrays with the result of \<^verbatim>\<open>currentIndex[serviceName] % services.length\<close>.
  \<^verbatim>\<open>currentIndex\<close> is a plain object, so reading a key it does not have gives
  \<^verbatim>\<open>undefined\<close>, and arithmetic on \<^verbatim>\<open>undefined\<close> gives \<^verbatim>\<open>NaN\<close>. The numbers that
  occur are natural numbers or \<^verbatim>\<open>NaN\<close>; a property that is absent is \<open>None\<close>.
\<close>

datatype jsnum = Num nat | NaN

text \<open>\<^verbatim>\<open>ToNumber\<close> of a property that may be \<^verbatim>\<open>undefined\<close>.\<close>

definition to_number :: "jsnum option \<Rightarrow> jsnum" where
  "to_number v = (case v of None \<Rightarrow> NaN | Some x \<Rightarrow> x)"

text \<open>\<^verbatim>\<open>x % n\<close> for an array length \<open>n\<close>: \<^verbatim>\<open>NaN\<close> when \<open>x\<close> is \<^verbatim>\<open>NaN\<close> or \<open>n\<close> is zero.\<close>

definition js_mod :: "jsnum \<Rightarrow> nat \<Rightarrow> jsnum" where
  "js_mod x n = (case x of NaN \<Rightarrow> NaN | Num c \<Rightarrow> if n = 0 then NaN else Num (c mod n))"

text \<open>\<^verbatim>\<open>x + 1\<close>.\<close>

definition js_add1 :: "jsnum \<Rightarrow> jsnum" where
  "js_add1 x = (case x of NaN \<Rightarrow> NaN | Num c \<Rightarrow> Num (c + 1))"

text \<open>\<^verbatim>\<open>xs[i]\<close>: \<^verbatim>\<open>undefined\<close> (here \<open>None\<close>) out of range and at \<^verbatim>\<open>NaN\<close>.\<close>

definition js_index :: "'a list \<Rightarrow> jsnum \<Rightarrow> 'a option" where
  "js_index xs i = (case i of NaN \<Rightarrow> None | Num k \<Rightarrow> if k < length xs then Some (xs ! k) else None)"

text \<open>\<^verbatim>\<open>Array.prototype.findIndex\<close>; \<open>None\<close> stands for the result \<^verbatim>\<open>-1\<close>.\<close>

fun findIndex :: "('a \<Rightarrow> bool) \<Rightarrow> 'a list \<Rightarrow> nat option" where
  "findIndex P [] = None"
| "findIndex P (x # xs) = (if P x then Some 0 else map_option Suc (findIndex P xs))"

text \<open>\<^verbatim>\<open>xs.splice(k, 1)\<close>: the array without its element at position \<open>k\<close>.\<close>

definition splice1 :: "nat \<Rightarrow> 'a list \<Rightarrow> 'a list" where
  "splice1 k xs = take k xs @ drop (Suc k) xs"

text \<open>The decimal rendering of a number inside a template string.\<close>

definition digit_char :: "nat \<Rightarrow> char" where
  "digit_char d = ''0123456789'' ! d"

function show_nat :: "nat \<Rightarrow> string" where
  "show_nat n = (if n < 10 then [digit_char n] else show_nat (n div 10) @ [digit_char (n mod 10)])"
  by pat_completeness auto
termination
  by (relation "measure (\<lambda>n. n)") auto

declare show_nat.simps [simp del]

text \<open>Exceptions of the program, each with the text of its \<^verbatim>\<open>message\<close>.\<close>

datatype error =
    NoHealthyServices string
  | UndefinedProperty string
  | RequestFailed string

definition message :: "error \<Rightarrow> string" where
  "message e = (case e of
      NoHealthyServices serviceName \<Rightarrow> ''No healthy '' @ serviceName @ '' services available''
    | UndefinedProperty p \<Rightarrow>
        ''Cannot read properties of undefined (reading '' @ [CHR 0x27] @ p @ [CHR 0x27] @ '')''
    | RequestFailed msg \<Rightarrow> msg)"

section \<open>Service discovery (shared/serviceDiscovery.js)\<close>

text \<open>
  An entry of the in-memory registry. Entries mapped from a Consul reply carry no
  \<^verbatim>\<open>lastCheck\<close> field. The field \<^verbatim>\<open>id\<close> is named \<open>inst_id\<close> here.
\<close>

record service_instance =
  inst_id :: string
  address :: string
  port :: nat
  healthy :: bool
  lastCheck :: "nat option"

text \<open>
  \<^verbatim>\<open>this.services\<close> is a \<^verbatim>\<open>Map\<close> from service name to an array of instances; a
  \<^verbatim>\<open>Map\<close> iterates in insertion order, which \<^verbatim>\<open>deregisterService\<close> depends on, so it is
  an association list. \<open>map_of\<close> is \<^verbatim>\<open>get\<close>, \<open>AList.update\<close> is \<^verbatim>\<open>set\<close> (a new key
  goes to the end, a known key keeps its place).
\<close>

record discovery =
  useConsul :: bool
  services :: "(string \<times> service_instance list) list"

text \<open>
  Consul is outside the repository. One query of it either fails with a message or
  returns the passing entries as triples (\<^verbatim>\<open>Service.ID\<close>, \<^verbatim>\<open>Service.Address\<close>,
  \<^verbatim>\<open>Service.Port\<close>).
\<close>

type_synonym consul_reply = "string + (string \<times> string \<times> nat) list"

definition fallbackRegister :: "discovery \<Rightarrow> nat \<Rightarrow> string \<Rightarrow> string \<Rightarrow> nat \<Rightarrow> discovery" where
  "fallbackRegister d now name ident prt =
     (let svcs = (if map_of (services d) name = None
                  then AList.update name [] (services d) else services d);
          instances = (case map_of svcs name of None \<Rightarrow> [] | Some xs \<Rightarrow> xs);
          existingIndex = findIndex (\<lambda>i. inst_id i = ident) instances;
          serviceInstance = \<lparr>inst_id = ident, address = ''localhost'', port = prt,
                             healthy = True, lastCheck = Some now\<rparr>;
          instances' = (case existingIndex of
                          Some k \<Rightarrow> instances[k := serviceInstance]
                        | None \<Rightarrow> instances @ [serviceInstance])
      in d\<lparr>services := AList.update name instances' svcs\<rparr>)"

text \<open>
  \<open>consulOk\<close> says whether \<^verbatim>\<open>consul.agent.service.register\<close> resolves; it is consulted
  only in Consul mode. \<open>now\<close> is the value of \<^verbatim>\<open>new Date()\<close>.
\<close>

definition registerService ::
  "discovery \<Rightarrow> bool \<Rightarrow> nat \<Rightarrow> string \<Rightarrow> string \<Rightarrow> nat \<Rightarrow> discovery" where
  "registerService d consulOk now name ident prt =
     (if useConsul d then
        (if consulOk then d else fallbackRegister d now name ident prt)
      else fallbackRegister d now name ident prt)"

definition fallbackDiscover :: "discovery \<Rightarrow> string \<Rightarrow> service_instance list" where
  "fallbackDiscover d serviceName =
     (let instances = (case map_of (services d) serviceName of None \<Rightarrow> [] | Some xs \<Rightarrow> xs)
      in filter healthy instances)"

definition discoverServices :: "discovery \<Rightarrow> consul_reply \<Rightarrow> string \<Rightarrow> service_instance list" where
  "discoverServices d consul serviceName =
     (if useConsul d then
        (case consul of
           Inr found \<Rightarrow>
             map (\<lambda>(i, a, p). \<lparr>inst_id = i, address = a, port = p, healthy = True,
                               lastCheck = None\<rparr>) found
         | Inl err \<Rightarrow> fallbackDiscover d serviceName)
      else fallbackDiscover d serviceName)"

text \<open>
  The loop of \<^verbatim>\<open>deregisterService\<close> over the entries of the \<^verbatim>\<open>Map\<close>: the first
  service that holds the id loses that instance, and the loop breaks.
\<close>

fun deregisterEntries :: "string \<Rightarrow> (string \<times> service_instance list) list \<Rightarrow> (string \<times> service_instance list) list" where
  "deregisterEntries ident [] = []"
| "deregisterEntries ident ((serviceName, instances) # rest) =
     (case findIndex (\<lambda>i. inst_id i = ident) instances of
        Some k \<Rightarrow> (serviceName, splice1 k instances) # rest
      | None \<Rightarrow> (serviceName, instances) # deregisterEntries ident rest)"

text \<open>
  The Consul call of \<^verbatim>\<open>deregisterService\<close> changes nothing in this process whether it
  resolves or is caught; the in-memory registry is swept in either mode.
\<close>

definition deregisterService :: "discovery \<Rightarrow> string \<Rightarrow> discovery" where
  "deregisterService d ident = d\<lparr>services := deregisterEntries ident (services d)\<rparr>"

text \<open>
  \<^verbatim>\<open>healthCheck\<close>: \<open>probe i\<close> is \<open>Some ok\<close> when \<^verbatim>\<open>fetch\<close> resolves with
  \<^verbatim>\<open>response.ok = ok\<close> and \<open>None\<close> when it throws.
\<close>

definition probeInstance :: "(service_instance \<Rightarrow> bool option) \<Rightarrow> nat \<Rightarrow> service_instance \<Rightarrow> service_instance" where
  "probeInstance probe now i =
     (case probe i of
        Some ok \<Rightarrow> i\<lparr>healthy := ok, lastCheck := Some now\<rparr>
      | None \<Rightarrow> i\<lparr>healthy := False, lastCheck := Some now\<rparr>)"

definition healthCheck :: "discovery \<Rightarrow> (service_instance \<Rightarrow> bool option) \<Rightarrow> nat \<Rightarrow> discovery" where
  "healthCheck d probe now =
     (if \<not> useConsul d then
        d\<lparr>services := map (\<lambda>(serviceName, instances).
                              (serviceName, map (probeInstance probe now) instances)) (services d)\<rparr>
      else d)"

section \<open>Message queue (shared/messageQueue.js)\<close>

datatype job_status = waiting | processing | completed | failed

record job =
  job_id :: nat
  job_name :: string
  job_data :: string
  status :: job_status
  job_error :: "string option"

text \<open>
  A processor is an async function of the job: it resolves (\<open>None\<close>) or throws an
  error with a message (\<open>Some msg\<close>). It is taken not to write to the job itself.
\<close>

type_synonym processor = "job \<Rightarrow> string option"

text \<open>
  What \<^verbatim>\<open>this.queues\<close> holds under a name: a Bull queue (Redis mode), which has no
  \<^verbatim>\<open>processors\<close> property, or the object literal of the in-memory fallback with its
  \<^verbatim>\<open>processors\<close> array.
\<close>

datatype queue = BullQueue | FallbackQueue "processor list"

text \<open>
  The manager: \<^verbatim>\<open>useRedis\<close>, the \<^verbatim>\<open>Map\<close> \<^verbatim>\<open>queues\<close>, and the property
  \<^verbatim>\<open>processors\<close> of the \<^verbatim>\<open>Map\<close> \<^verbatim>\<open>this.fallbackQueue\<close>, which is
  \<^verbatim>\<open>undefined\<close> (\<open>None\<close>) until the fallback's \<^verbatim>\<open>process\<close> sets it. The only caller
  of \<^verbatim>\<open>process\<close> is \<^verbatim>\<open>subscribeToEvents\<close>, which passes the event name first, so
  the values pushed there are event names.
\<close>

record mq =
  useRedis :: bool
  queues :: "(string \<times> queue) list"
  fallbackQueue_processors :: "string list option"

definition getQueue :: "mq \<Rightarrow> string \<Rightarrow> queue option" where
  "getQueue m name = map_of (queues m) name"

text \<open>
  \<^verbatim>\<open>createQueue\<close>. In the fallback branch the new object has
  \<^verbatim>\<open>jobs: []\<close> and \<^verbatim>\<open>processors: []\<close>; its \<^verbatim>\<open>add\<close> and \<^verbatim>\<open>process\<close> are arrow
  functions, so inside them \<^verbatim>\<open>this\<close> is the manager and
  \<^verbatim>\<open>this.fallbackQueue\<close> is the \<^verbatim>\<open>Map\<close> made in the constructor, not the new object.
\<close>

definition createQueue :: "mq \<Rightarrow> string \<Rightarrow> queue \<times> mq" where
  "createQueue m name =
     (if useRedis m then (BullQueue, m\<lparr>queues := AList.update name BullQueue (queues m)\<rparr>)
      else (FallbackQueue [], m\<lparr>queues := AList.update name (FallbackQueue []) (queues m)\<rparr>))"

text \<open>
  \<^verbatim>\<open>queue.add\<close>. For a Bull queue the broker decides: \<open>bull\<close> is \<open>None\<close> when the
  call resolves and \<open>Some msg\<close> when it rejects. The fallback's \<^verbatim>\<open>add\<close> is an arrow
  function, so its \<^verbatim>\<open>this\<close> is the manager, and \<^verbatim>\<open>this.fallbackQueue\<close> is the
  \<^verbatim>\<open>Map\<close> made in the constructor, which has no \<^verbatim>\<open>jobs\<close> property: the statement
  \<^verbatim>\<open>this.fallbackQueue.jobs.push(job)\<close> raises a TypeError before the job is scheduled.
\<close>

definition queue_add :: "queue \<Rightarrow> string option \<Rightarrow> error + unit" where
  "queue_add q bull =
     (case q of
        BullQueue \<Rightarrow> (case bull of None \<Rightarrow> Inr () | Some msg \<Rightarrow> Inl (RequestFailed msg))
      | FallbackQueue ps \<Rightarrow> Inl (UndefinedProperty ''push''))"

text \<open>
  The fallback's \<^verbatim>\<open>process(processor)\<close>: the value is pushed on
  \<^verbatim>\<open>this.fallbackQueue.processors\<close> (made an empty array first when it is not there);
  the \<^verbatim>\<open>processors\<close> array of the queue object is not touched.
\<close>

definition fallback_process :: "mq \<Rightarrow> string \<Rightarrow> mq" where
  "fallback_process m processor =
     (let ps = (case fallbackQueue_processors m of None \<Rightarrow> [] | Some xs \<Rightarrow> xs)
      in m\<lparr>fallbackQueue_processors := Some (ps @ [processor])\<rparr>)"

text \<open>
  \<^verbatim>\<open>subscribeToEvents(eventName, handler)\<close> calls \<^verbatim>\<open>eventQueue.process(eventName, fn)\<close>.
  A Bull queue registers the function with the broker, outside this process. The
  fallback's \<^verbatim>\<open>process\<close> has one parameter: it receives the event name, and the
  function wrapping the handler is dropped, so the handler is not a parameter of the
  result.
\<close>

definition subscribeToEvents :: "mq \<Rightarrow> string \<Rightarrow> processor \<Rightarrow> mq" where
  "subscribeToEvents m eventName handler =
     (let (eventQueue, m1) = (case getQueue m ''events'' of
                                Some q \<Rightarrow> (q, m)
                              | None \<Rightarrow> createQueue m ''events'')
      in case eventQueue of
           BullQueue \<Rightarrow> m1
         | FallbackQueue ps \<Rightarrow> fallback_process m1 eventName)"

text \<open>\<^verbatim>\<open>try { body } catch (error) { handler }\<close> on results.\<close>

definition try_catch :: "error + 'a \<Rightarrow> (error \<Rightarrow> error + 'a) \<Rightarrow> error + 'a" where
  "try_catch body handler = (case body of Inl e \<Rightarrow> handler e | Inr v \<Rightarrow> Inr v)"

text \<open>
  \<^verbatim>\<open>publishEvent\<close>: \<open>Inl\<close> would be an exception reaching the caller. The result
  holds the manager and whether \<^verbatim>\<open>Event published\<close> (\<open>True\<close>) or
  \<^verbatim>\<open>Failed to publish event\<close> (\<open>False\<close>) was logged.
\<close>

definition publishEvent :: "mq \<Rightarrow> string option \<Rightarrow> string \<Rightarrow> string \<Rightarrow> error + (mq \<times> bool)" where
  "publishEvent m bull eventName data =
     (let (eventQueue, m1) = (case getQueue m ''events'' of
                                Some q \<Rightarrow> (q, m)
                              | None \<Rightarrow> createQueue m ''events'')
      in try_catch
           (case queue_add eventQueue bull of
              Inl e \<Rightarrow> Inl e
            | Inr u \<Rightarrow> Inr (m1, True))
           (\<lambda>e. Inr (m1, False)))"

text \<open>
  The loop of \<^verbatim>\<open>processFallbackJob\<close>, as the list of the states the job goes
  through: each processor sets \<^verbatim>\<open>processing\<close>, then \<^verbatim>\<open>completed\<close> when it
  resolves, or \<^verbatim>\<open>failed\<close> with the message when it throws. The \<^verbatim>\<open>try\<close> is inside the
  loop, so the loop goes on to the next processor in both cases.
\<close>

fun runProcessors :: "processor list \<Rightarrow> job \<Rightarrow> job list" where
  "runProcessors [] j = []"
| "runProcessors (p # ps) j =
     (let j1 = j\<lparr>status := processing\<rparr>;
          j2 = (case p j1 of
                  None \<Rightarrow> j1\<lparr>status := completed\<rparr>
                | Some msg \<Rightarrow> j1\<lparr>status := failed, job_error := Some msg\<rparr>)
      in j1 # j2 # runProcessors ps j2)"

definition processFallbackJob_trace :: "mq \<Rightarrow> string \<Rightarrow> job \<Rightarrow> job list" where
  "processFallbackJob_trace m queueName j =
     (case getQueue m queueName of
        None \<Rightarrow> []
      | Some BullQueue \<Rightarrow> []
      | Some (FallbackQueue ps) \<Rightarrow> runProcessors ps j)"

text \<open>The job as \<^verbatim>\<open>processFallbackJob\<close> leaves it.\<close>

definition processFallbackJob :: "mq \<Rightarrow> string \<Rightarrow> job \<Rightarrow> job" where
  "processFallbackJob m queueName j = last (j # processFallbackJob_trace m queueName j)"

section \<open>Gateway (services/gateway/server.js)\<close>

text \<open>The object \<^verbatim>\<open>{url, healthy, requests}\<close> that selection returns.\<close>

record target =
  url :: string
  t_healthy :: bool
  requests :: nat

text \<open>
  \<^verbatim>\<open>currentIndex\<close> is an object (a key it lacks reads as \<^verbatim>\<open>undefined\<close>);
  \<^verbatim>\<open>requestCounts\<close> is a \<^verbatim>\<open>Map\<close> keyed by \<^verbatim>\<open>address:port\<close>.
\<close>

record gateway =
  currentIndex :: "string \<Rightarrow> jsnum option"
  requestCounts :: "(string \<times> nat) list"

definition initial_gateway :: gateway where
  "initial_gateway =
     \<lparr>currentIndex = [''user'' \<mapsto> Num 0, ''product'' \<mapsto> Num 0, ''order'' \<mapsto> Num 0],
      requestCounts = []\<rparr>"

definition serviceKey :: "service_instance \<Rightarrow> string" where
  "serviceKey s = address s @ '':'' @ show_nat (port s)"

definition serviceUrl :: "service_instance \<Rightarrow> string" where
  "serviceUrl s = ''http://'' @ address s @ '':'' @ show_nat (port s)"

text \<open>\<^verbatim>\<open>requestCounts.get(key) || 0\<close>.\<close>

definition getCount :: "(string \<times> nat) list \<Rightarrow> string \<Rightarrow> nat" where
  "getCount rc k = (case map_of rc k of None \<Rightarrow> 0 | Some c \<Rightarrow> c)"

text \<open>
  \<^verbatim>\<open>selectFromDiscoveredServices\<close>. The cursor is assigned before
  \<^verbatim>\<open>service.address\<close> is read, so the assignment stays when that read throws.
\<close>

definition selectFromDiscoveredServices ::
  "gateway \<Rightarrow> string \<Rightarrow> service_instance list \<Rightarrow> (error + target) \<times> gateway" where
  "selectFromDiscoveredServices g serviceName svcs =
     (if length svcs = 0 then (Inl (NoHealthyServices serviceName), g)
      else
        let service = js_index svcs (js_mod (to_number (currentIndex g serviceName)) (length svcs));
            g1 = g\<lparr>currentIndex := (currentIndex g)
                     (serviceName \<mapsto>
                        js_mod (js_add1 (to_number (currentIndex g serviceName))) (length svcs))\<rparr>
        in case service of
             None \<Rightarrow> (Inl (UndefinedProperty ''address''), g1)
           | Some s \<Rightarrow>
               let currentCount = getCount (requestCounts g1) (serviceKey s);
                   g2 = g1\<lparr>requestCounts :=
                            AList.update (serviceKey s) (currentCount + 1) (requestCounts g1)\<rparr>
               in (Inr \<lparr>url = serviceUrl s, t_healthy = healthy s,
                        requests = getCount (requestCounts g2) (serviceKey s)\<rparr>, g2))"

text \<open>
  \<^verbatim>\<open>getNextService\<close>. When discovery returns nothing the code reads
  \<^verbatim>\<open>serviceRegistry[serviceName]\<close>. \<^verbatim>\<open>serviceRegistry\<close> is a \<^verbatim>\<open>Map\<close> that nothing
  ever writes to, and the bracket reads a property of the object, not an entry: the
  value is \<^verbatim>\<open>undefined\<close> (or, for a name such as \<^verbatim>\<open>size\<close>, a value with no
  \<^verbatim>\<open>filter\<close> method, where the TypeError has another text), so \<^verbatim>\<open>services.filter\<close>
  throws and the static round robin after it is never reached.
\<close>

definition getNextService ::
  "gateway \<Rightarrow> discovery \<Rightarrow> consul_reply \<Rightarrow> string \<Rightarrow> (error + target) \<times> gateway" where
  "getNextService g d consul serviceName =
     (let discoveredServices = discoverServices d consul serviceName
      in if length discoveredServices > 0
         then selectFromDiscoveredServices g serviceName discoveredServices
         else (Inl (UndefinedProperty ''filter''), g))"

record request =
  req_method :: string
  req_path :: string
  req_body :: string
  requestId :: string

datatype json = Passthrough string | ErrorJson string string string

record response =
  statusCode :: nat
  body :: json

text \<open>
  What the server at a URL does with one request: it answers with a status and a body
  that the client takes as the response (every status outside 3xx, and a 3xx answer with
  no \<^verbatim>\<open>Location\<close> header); it answers 3xx with a \<^verbatim>\<open>Location\<close>, here the URL the
  client is sent on to; or no answer arrives (refused connection, timeout) and the
  client has an error message.
\<close>

datatype net_outcome = Reply nat string | Redirect string | NoReply string

text \<open>
  The gateway calls \<^verbatim>\<open>axios(config)\<close> with no \<^verbatim>\<open>validateStatus\<close> and no
  \<^verbatim>\<open>maxRedirects\<close> of its own, so the library's defaults apply: a redirect is followed,
  up to a limit that depends on the version of the library (nothing proved below depends
  on it), and the promise resolves when the response it ends with has a status from 200
  to 299 and rejects for any other.
\<close>

definition validateStatus :: "nat \<Rightarrow> bool" where
  "validateStatus st = (200 \<le> st \<and> st < 300)"

fun axios :: "nat \<Rightarrow> (string \<Rightarrow> net_outcome) \<Rightarrow> string \<Rightarrow> error + (nat \<times> string)" where
  "axios 0 net u =
     (case net u of
        NoReply msg \<Rightarrow> Inl (RequestFailed msg)
      | Redirect loc \<Rightarrow> Inl (RequestFailed ''Maximum number of redirects exceeded'')
      | Reply st dat \<Rightarrow>
          if validateStatus st then Inr (st, dat)
          else Inl (RequestFailed (''Request failed with status code '' @ show_nat st)))"
| "axios (Suc r) net u =
     (case net u of
        NoReply msg \<Rightarrow> Inl (RequestFailed msg)
      | Redirect loc \<Rightarrow> axios r net loc
      | Reply st dat \<Rightarrow>
          if validateStatus st then Inr (st, dat)
          else Inl (RequestFailed (''Request failed with status code '' @ show_nat st)))"

text \<open>
  The world around one call of \<^verbatim>\<open>proxyRequest\<close>, by attempt (0, 1, 2): the registry
  as discovery finds it (other tasks run while the call awaits), Consul's reply, the
  broker's answer to \<^verbatim>\<open>add\<close>, and what the servers do with a request for a URL;
  \<open>maxRedirects\<close> is the HTTP client's limit on redirects.
\<close>

record env =
  registry_at :: "nat \<Rightarrow> discovery"
  consul_at :: "nat \<Rightarrow> consul_reply"
  bull_at :: "nat \<Rightarrow> string option"
  network_at :: "nat \<Rightarrow> string \<Rightarrow> net_outcome"
  maxRedirects :: nat

definition maxAttempts :: nat where
  "maxAttempts = 3"

text \<open>
  The lines \<^verbatim>\<open>proxyRequest\<close> writes to the logger: \<^verbatim>\<open>Proxying request\<close> (attempt,
  target), \<^verbatim>\<open>Request completed successfully\<close> (target, status code),
  \<^verbatim>\<open>Request attempt failed\<close> (attempt, error message) and
  \<^verbatim>\<open>Request failed after all attempts\<close> (maxAttempts).
\<close>

datatype log_line =
    Proxying nat string
  | Completed string nat
  | AttemptFailed nat string
  | AllAttemptsFailed nat

fun targets :: "log_line list \<Rightarrow> string list" where
  "targets [] = []"
| "targets (Proxying k u # ls) = u # targets ls"
| "targets (l # ls) = targets ls"

fun failedAttempts :: "log_line list \<Rightarrow> nat list" where
  "failedAttempts [] = []"
| "failedAttempts (AttemptFailed k msg # ls) = k # failedAttempts ls"
| "failedAttempts (l # ls) = failedAttempts ls"

text \<open>
  The body of the \<^verbatim>\<open>try\<close> in \<^verbatim>\<open>proxyRequest\<close>: select, log the target with the
  attempt number, publish the audit event, forward.
\<close>

definition attemptForward ::
  "env \<Rightarrow> request \<Rightarrow> string \<Rightarrow> nat \<Rightarrow> gateway \<Rightarrow> mq
     \<Rightarrow> (error + response) \<times> gateway \<times> mq \<times> log_line list" where
  "attemptForward e req serviceName attempts g m =
     (case getNextService g (registry_at e attempts) (consul_at e attempts) serviceName of
        (Inl err, g1) \<Rightarrow> (Inl err, g1, m, [])
      | (Inr service0, g1) \<Rightarrow>
          let service = service0\<lparr>requests := requests service0 + 1\<rparr>;
              lg = [Proxying (attempts + 1) (url service)]
          in case publishEvent m (bull_at e attempts) ''request.proxied'' (url service) of
               Inl err \<Rightarrow> (Inl err, g1, m, lg)
             | Inr (m1, published) \<Rightarrow>
                 (case axios (maxRedirects e) (network_at e attempts) (url service @ req_path req) of
                    Inl err \<Rightarrow> (Inl err, g1, m1, lg)
                  | Inr (st, dat) \<Rightarrow>
                      (Inr \<lparr>statusCode = st, body = Passthrough dat\<rparr>, g1, m1,
                       lg @ [Completed (url service) st])))"

text \<open>
  The \<^verbatim>\<open>while\<close> loop of \<^verbatim>\<open>proxyRequest\<close>. \<open>None\<close> as response would be the loop
  left with no response sent.
\<close>

function proxyLoop ::
  "env \<Rightarrow> request \<Rightarrow> string \<Rightarrow> nat \<Rightarrow> gateway \<Rightarrow> mq \<Rightarrow> log_line list
     \<Rightarrow> response option \<times> gateway \<times> mq \<times> log_line list" where
  "proxyLoop e req serviceName attempts g m lg =
     (if attempts < maxAttempts then
        (case attemptForward e req serviceName attempts g m of
           (Inr resp, g1, m1, lg1) \<Rightarrow> (Some resp, g1, m1, lg @ lg1)
         | (Inl err, g1, m1, lg1) \<Rightarrow>
             if attempts + 1 = maxAttempts then
               (Some \<lparr>statusCode = 500,
                      body = ErrorJson
                        (''Service '' @ serviceName @ '' unavailable after ''
                           @ show_nat maxAttempts @ '' attempts'')
                        (message err) (requestId req)\<rparr>, g1, m1,
                lg @ lg1 @ [AttemptFailed (attempts + 1) (message err),
                            AllAttemptsFailed maxAttempts])
             else proxyLoop e req serviceName (attempts + 1) g1 m1
                    (lg @ lg1 @ [AttemptFailed (attempts + 1) (message err)]))
      else (None, g, m, lg))"
  by pat_completeness auto
termination
  by (relation "measure (\<lambda>(e, req, serviceName, attempts, g, m, lg). maxAttempts - attempts)") auto

declare proxyLoop.simps [simp del]

definition proxyRequest ::
  "env \<Rightarrow> request \<Rightarrow> string \<Rightarrow> gateway \<Rightarrow> mq
     \<Rightarrow> response option \<times> gateway \<times> mq \<times> log_line list" where
  "proxyRequest e req serviceName g m = proxyLoop e req serviceName 0 g m []"

text \<open>
  The stats handler. The entries of \<^verbatim>\<open>discoveredServices\<close> are assigned in the
  callback passed to \<^verbatim>\<open>Promise.all(...).then\<close>; \<open>statsCallback\<close> is what that callback
  stores. A \<^verbatim>\<open>then\<close> callback runs only after the running function has returned, and
  the handler builds \<^verbatim>\<open>stats\<close> and calls \<^verbatim>\<open>res.json\<close> in the same run, so at that point
  \<^verbatim>\<open>discoveredServices\<close> is still the empty object and \<^verbatim>\<open>services\<close> is
  \<^verbatim>\<open>serviceRegistry\<close>, the empty \<^verbatim>\<open>Map\<close>, which is written to JSON as an object with no
  entries.
\<close>

record stats =
  stats_services :: "(string \<times> target list) list"
  stats_currentIndex :: "string \<Rightarrow> jsnum option"
  totalRequests :: nat
  stats_serviceDiscovery :: string
  stats_messageQueue :: string

definition statsEntry :: "gateway \<Rightarrow> service_instance \<Rightarrow> target" where
  "statsEntry g s =
     \<lparr>url = serviceUrl s, t_healthy = healthy s, requests = getCount (requestCounts g) (serviceKey s)\<rparr>"

definition statsCallback ::
  "gateway \<Rightarrow> discovery \<Rightarrow> (string \<Rightarrow> consul_reply) \<Rightarrow> (string \<times> target list) list" where
  "statsCallback g d consul =
     [(''user'', map (statsEntry g) (discoverServices d (consul ''user'') ''user'')),
      (''product'', map (statsEntry g) (discoverServices d (consul ''product'') ''product'')),
      (''order'', map (statsEntry g) (discoverServices d (consul ''order'') ''order''))]"

definition statsHandler :: "gateway \<Rightarrow> discovery \<Rightarrow> mq \<Rightarrow> stats" where
  "statsHandler g d m =
     (let discoveredServices = ([] :: (string \<times> target list) list);
          serviceRegistry = ([] :: (string \<times> target list) list)
      in \<lparr>stats_services = (if length discoveredServices > 0 then discoveredServices
                             else serviceRegistry),
          stats_currentIndex = currentIndex g,
          totalRequests = sum_list (map snd (requestCounts g)),
          stats_serviceDiscovery = (if useConsul d then ''consul'' else ''fallback''),
          stats_messageQueue = (if useRedis m then ''redis'' else ''fallback'')\<rparr>)"

section \<open>The process: gateway, registry and queue manager together\<close>

text \<open>
  The three module states of the gateway process and the operations that the event
  loop can run on them, one at a time.
\<close>

record system =
  gw :: gateway
  disc :: discovery
  queue_manager :: mq

datatype operation =
    Register string string nat nat bool
  | Deregister string
  | HealthCheck "service_instance \<Rightarrow> bool option" nat
  | Select string consul_reply
  | Route env request string
  | Stats

fun exec :: "operation \<Rightarrow> system \<Rightarrow> system" where
  "exec (Register name ident prt now consulOk) s =
     s\<lparr>disc := registerService (disc s) consulOk now name ident prt\<rparr>"
| "exec (Deregister ident) s = s\<lparr>disc := deregisterService (disc s) ident\<rparr>"
| "exec (HealthCheck probe now) s = s\<lparr>disc := healthCheck (disc s) probe now\<rparr>"
| "exec (Select serviceName consul) s =
     s\<lparr>gw := snd (getNextService (gw s) (disc s) consul serviceName)\<rparr>"
| "exec (Route e req serviceName) s =
     (case proxyRequest (e\<lparr>registry_at := (\<lambda>k. disc s)\<rparr>) req serviceName (gw s) (queue_manager s) of
        (resp, g1, m1, lg) \<Rightarrow> s\<lparr>gw := g1, queue_manager := m1\<rparr>)"
| "exec Stats s = s"

fun run :: "operation list \<Rightarrow> system \<Rightarrow> system" where
  "run [] s = s"
| "run (x # xs) s = run xs (exec x s)"

text \<open>
  When the gateway module is loaded \<^verbatim>\<open>useRedis\<close> is still false (the connection is
  made later), so \<^verbatim>\<open>createQueue('events')\<close> and \<^verbatim>\<open>createQueue('audit')\<close> make fallback
  queues, and the two calls of \<^verbatim>\<open>subscribeToEvents\<close> push their event names.
\<close>

definition initial_system :: system where
  "initial_system =
     \<lparr>gw = initial_gateway,
      disc = \<lparr>useConsul = False, services = []\<rparr>,
      queue_manager = \<lparr>useRedis = False,
                       queues = [(''events'', FallbackQueue []), (''audit'', FallbackQueue [])],
                       fallbackQueue_processors =
                         Some [''service.registered'', ''service.deregistered'']\<rparr>\<rparr>"

text \<open>
  What can happen to the queue manager while the process runs: Redis connects or fails
  (the \<^verbatim>\<open>connect\<close> and \<^verbatim>\<open>error\<close> listeners set \<^verbatim>\<open>useRedis\<close>), a queue is created,
  a handler is subscribed, an event is published.
\<close>

datatype mq_operation =
    SetRedis bool
  | CreateQueue string
  | Subscribe string processor
  | Publish "string option" string string

fun mq_exec :: "mq_operation \<Rightarrow> mq \<Rightarrow> mq" where
  "mq_exec (SetRedis b) m = m\<lparr>useRedis := b\<rparr>"
| "mq_exec (CreateQueue name) m = snd (createQueue m name)"
| "mq_exec (Subscribe eventName handler) m = subscribeToEvents m eventName handler"
| "mq_exec (Publish bull eventName dat) m =
     (case publishEvent m bull eventName dat of
        Inl err \<Rightarrow> m
      | Inr (m1, published) \<Rightarrow> m1)"

fun mq_run :: "mq_operation list \<Rightarrow> mq \<Rightarrow> mq" where
  "mq_run [] m = m"
| "mq_run (x # xs) m = mq_run xs (mq_exec x m)"

text \<open>Every fallback queue the manager holds has an empty \<^verbatim>\<open>processors\<close> array.\<close>

definition no_processors :: "mq \<Rightarrow> bool" where
  "no_processors m = list_all (\<lambda>(name, q). case q of BullQueue \<Rightarrow> True | FallbackQueue ps \<Rightarrow> ps = [])
       (queues m)"


text \<open>The operations that touch the registry only.\<close>

fun registry_op :: "operation \<Rightarrow> bool" where
  "registry_op (Register name ident prt now consulOk) = True"
| "registry_op (Deregister ident) = True"
| "registry_op (HealthCheck probe now) = True"
| "registry_op Stats = True"
| "registry_op (Select serviceName consul) = False"
| "registry_op (Route e req serviceName) = False"

section \<open>Concrete scenarios\<close>

text \<open>Three instances A, B, C of the user service, registered in local mode.\<close>

definition abc_registry :: discovery where
  "abc_registry =
     registerService
       (registerService
          (registerService \<lparr>useConsul = False, services = []\<rparr> True 1000 ''user'' ''A'' 3002)
          True 1001 ''user'' ''B'' 3003)
       True 1002 ''user'' ''C'' 3004"

text \<open>A single instance of the user service.\<close>

definition single_registry :: discovery where
  "single_registry =
     registerService \<lparr>useConsul = False, services = []\<rparr> True 1000 ''user'' ''A'' 3002"

text \<open>A world where Consul is not reachable and every forwarded request is answered.\<close>

definition answering_env :: "discovery \<Rightarrow> nat \<Rightarrow> string \<Rightarrow> env" where
  "answering_env d st dat =
     \<lparr>registry_at = (\<lambda>k. d), consul_at = (\<lambda>k. Inl ''Consul not available''),
      bull_at = (\<lambda>k. None), network_at = (\<lambda>k u. Reply st dat), maxRedirects = 5\<rparr>"

text \<open>A world where no connection to an instance can be made.\<close>

definition refusing_env :: "discovery \<Rightarrow> env" where
  "refusing_env d =
     \<lparr>registry_at = (\<lambda>k. d), consul_at = (\<lambda>k. Inl ''Consul not available''),
      bull_at = (\<lambda>k. None), network_at = (\<lambda>k u. NoReply ''connect ECONNREFUSED''),
      maxRedirects = 5\<rparr>"

definition get_users :: request where
  "get_users = \<lparr>req_method = ''GET'', req_path = ''/api/users'', req_body = [],
                requestId = ''req-1''\<rparr>"

definition initial_mq :: mq where
  "initial_mq = queue_manager initial_system"

text \<open>
  The gateway's manager after one more subscription in local mode, with a handler that
  throws.
\<close>

definition subscribed_mq :: mq where
  "subscribed_mq = subscribeToEvents initial_mq ''request.proxied'' (\<lambda>j. Some ''handler failed'')"

definition new_job :: job where
  "new_job = \<lparr>job_id = 1, job_name = ''request.proxied'', job_data = [], status = waiting,
              job_error = None\<rparr>"

section \<open>Registration and discovery in local mode\<close>

lemma findIndex_Some:
  "findIndex P xs = Some k \<Longrightarrow> k < length xs \<and> P (xs ! k)"
proof (induction xs arbitrary: k)
  case Nil
  then show ?case by simp
next
  case (Cons x xs)
  then show ?case by (cases "P x") (auto split: if_splits)
qed

lemma map_of_services_register:
  "map_of (services (fallbackRegister d now name ident prt)) name =
     Some (case findIndex (\<lambda>i. inst_id i = ident)
                  (case map_of (services d) name of None \<Rightarrow> [] | Some xs \<Rightarrow> xs) of
             Some k \<Rightarrow> (case map_of (services d) name of None \<Rightarrow> [] | Some xs \<Rightarrow> xs)
                         [k := \<lparr>inst_id = ident, address = ''localhost'', port = prt,
                                healthy = True, lastCheck = Some now\<rparr>]
           | None \<Rightarrow> (case map_of (services d) name of None \<Rightarrow> [] | Some xs \<Rightarrow> xs)
                       @ [\<lparr>inst_id = ident, address = ''localhost'', port = prt,
                           healthy = True, lastCheck = Some now\<rparr>])"
  by (simp add: fallbackRegister_def Let_def update_conv' split: option.splits)

text \<open>
  C10. In local mode (\<open>useConsul\<close> false), registering an instance, new or known, stores
  it with \<open>healthy = True\<close> and \<open>lastCheck\<close> set to the time of the call, and the
  next \<open>discoverServices\<close> for that service returns it, with no health check in between.
\<close>

theorem register_then_discover_local:
  assumes "\<not> useConsul d"
  shows "\<lparr>inst_id = ident, address = ''localhost'', port = prt, healthy = True,
           lastCheck = Some now\<rparr>
         \<in> set (discoverServices (registerService d consulOk now name ident prt) consul name)"
proof -
  let ?new = "\<lparr>inst_id = ident, address = ''localhost'', port = prt, healthy = True,
                lastCheck = Some now\<rparr>"
  let ?old = "case map_of (services d) name of None \<Rightarrow> [] | Some xs \<Rightarrow> xs"
  let ?d' = "fallbackRegister d now name ident prt"
  have mode: "useConsul ?d' = useConsul d"
    by (simp add: fallbackRegister_def Let_def)
  have "?new \<in> set (case findIndex (\<lambda>i. inst_id i = ident) ?old of
                       Some k \<Rightarrow> ?old[k := ?new] | None \<Rightarrow> ?old @ [?new])"
  proof (cases "findIndex (\<lambda>i. inst_id i = ident) ?old")
    case None
    then show ?thesis by simp
  next
    case (Some k)
    then have "k < length ?old" using findIndex_Some by fastforce
    then show ?thesis using Some by (simp add: set_update_memI)
  qed
  then have "?new \<in> set (fallbackDiscover ?d' name)"
    by (simp add: fallbackDiscover_def map_of_services_register)
  then show ?thesis
    using assms mode by (simp add: discoverServices_def registerService_def)
qed

theorem register_then_discover_local_witness:
  "\<not> useConsul \<lparr>useConsul = False, services = []\<rparr> \<and>
   discoverServices
     (registerService \<lparr>useConsul = False, services = []\<rparr> True 1000 ''user'' ''user-service-3002'' 3002)
     (Inl ''unreachable'') ''user''
   = [\<lparr>inst_id = ''user-service-3002'', address = ''localhost'', port = 3002, healthy = True,
        lastCheck = Some 1000\<rparr>]"
  using register_then_discover_local
    [of "\<lparr>useConsul = False, services = []\<rparr>" "''user-service-3002''" 3002 1000 True "''user''"
        "Inl ''unreachable''"]
  by (simp add: discoverServices_def registerService_def fallbackRegister_def fallbackDiscover_def)

section \<open>Routing: selection and forwarding\<close>

lemma getCount_update_same: "getCount (AList.update k v rc) k = v"
  by (simp add: getCount_def update_conv')

lemma getCount_update_other: "k' \<noteq> k \<Longrightarrow> getCount (AList.update k v rc) k' = getCount rc k'"
  by (simp add: getCount_def update_conv')

lemma publishEvent_returns:
  "\<exists>m1 published. publishEvent m bull eventName dat = Inr (m1, published)"
  by (auto simp: publishEvent_def try_catch_def Let_def split: prod.splits sum.splits option.splits)

lemma axios_unfold:
  "axios r net u =
     (case net u of
        NoReply msg \<Rightarrow> Inl (RequestFailed msg)
      | Redirect loc \<Rightarrow>
          (case r of
             0 \<Rightarrow> Inl (RequestFailed ''Maximum number of redirects exceeded'')
           | Suc r' \<Rightarrow> axios r' net loc)
      | Reply st dat \<Rightarrow>
          if validateStatus st then Inr (st, dat)
          else Inl (RequestFailed (''Request failed with status code '' @ show_nat st)))"
  by (cases r) (simp_all split: net_outcome.splits)

lemma axios_Reply:
  "net u = Reply st dat \<Longrightarrow>
   axios r net u =
     (if validateStatus st then Inr (st, dat)
      else Inl (RequestFailed (''Request failed with status code '' @ show_nat st)))"
  by (simp add: axios_unfold)

lemma axios_NoReply:
  "net u = NoReply msg \<Longrightarrow> axios r net u = Inl (RequestFailed msg)"
  by (cases r) simp_all

lemma axios_const_Reply:
  "axios r (\<lambda>u. Reply st dat) u =
     (if validateStatus st then Inr (st, dat)
      else Inl (RequestFailed (''Request failed with status code '' @ show_nat st)))"
  by (simp add: axios_Reply)

lemma axios_const_NoReply: "axios r (\<lambda>u. NoReply msg) u = Inl (RequestFailed msg)"
  by (simp add: axios_NoReply)

lemma redirect_is_followed:
  "net u = Redirect loc \<Longrightarrow> net loc = Reply st dat \<Longrightarrow>
   axios (Suc r) net u =
     (if validateStatus st then Inr (st, dat)
      else Inl (RequestFailed (''Request failed with status code '' @ show_nat st)))"
  by (simp add: axios_Reply)

lemma select_at_cursor:
  assumes "currentIndex g serviceName = Some (Num c)" and "svcs \<noteq> []"
  shows "selectFromDiscoveredServices g serviceName svcs =
     (Inr \<lparr>url = serviceUrl (svcs ! (c mod length svcs)),
           t_healthy = healthy (svcs ! (c mod length svcs)),
           requests = getCount (requestCounts g) (serviceKey (svcs ! (c mod length svcs))) + 1\<rparr>,
      g\<lparr>currentIndex := (currentIndex g)(serviceName \<mapsto> Num ((c + 1) mod length svcs)),
        requestCounts := AList.update (serviceKey (svcs ! (c mod length svcs)))
           (getCount (requestCounts g) (serviceKey (svcs ! (c mod length svcs))) + 1)
           (requestCounts g)\<rparr>)"
  using assms
  by (simp add: selectFromDiscoveredServices_def to_number_def js_mod_def js_add1_def
      js_index_def Let_def getCount_update_same)

lemma getNextService_at_cursor:
  assumes "currentIndex g serviceName = Some (Num c)"
    and "discoverServices d consul serviceName = svcs" and "svcs \<noteq> []"
  shows "getNextService g d consul serviceName =
     (Inr \<lparr>url = serviceUrl (svcs ! (c mod length svcs)),
           t_healthy = healthy (svcs ! (c mod length svcs)),
           requests = getCount (requestCounts g) (serviceKey (svcs ! (c mod length svcs))) + 1\<rparr>,
      g\<lparr>currentIndex := (currentIndex g)(serviceName \<mapsto> Num ((c + 1) mod length svcs)),
        requestCounts := AList.update (serviceKey (svcs ! (c mod length svcs)))
           (getCount (requestCounts g) (serviceKey (svcs ! (c mod length svcs))) + 1)
           (requestCounts g)\<rparr>)"
  using assms select_at_cursor [of g serviceName c svcs]
  by (simp add: getNextService_def Let_def)

lemma getNextService_empty:
  "discoverServices d consul serviceName = [] \<Longrightarrow>
   getNextService g d consul serviceName = (Inl (UndefinedProperty ''filter''), g)"
  by (simp add: getNextService_def)

lemma attemptForward_not_selected:
  "getNextService g (registry_at e k) (consul_at e k) serviceName = (Inl err, g1) \<Longrightarrow>
   attemptForward e req serviceName k g m = (Inl err, g1, m, [])"
  by (simp add: attemptForward_def)

lemma attemptForward_selected:
  assumes "getNextService g (registry_at e k) (consul_at e k) serviceName = (Inr t, g1)"
  shows "\<exists>m1. attemptForward e req serviceName k g m =
     (case axios (maxRedirects e) (network_at e k) (url t @ req_path req) of
        Inl err \<Rightarrow> (Inl err, g1, m1, [Proxying (k + 1) (url t)])
      | Inr (st, dat) \<Rightarrow>
          (Inr \<lparr>statusCode = st, body = Passthrough dat\<rparr>, g1, m1,
           [Proxying (k + 1) (url t), Completed (url t) st]))"
proof -
  obtain m1 published
    where "publishEvent m (bull_at e k) ''request.proxied'' (url t) = Inr (m1, published)"
    using publishEvent_returns by blast
  then show ?thesis
    using assms by (auto simp: attemptForward_def Let_def split: sum.splits prod.splits)
qed

lemma proxyRequest_unfold:
  "proxyRequest e req serviceName g m =
     (case attemptForward e req serviceName 0 g m of
        (Inr resp, g1, m1, l1) \<Rightarrow> (Some resp, g1, m1, l1)
      | (Inl e1, g1, m1, l1) \<Rightarrow>
         (case attemptForward e req serviceName 1 g1 m1 of
            (Inr resp, g2, m2, l2) \<Rightarrow> (Some resp, g2, m2, l1 @ [AttemptFailed 1 (message e1)] @ l2)
          | (Inl e2, g2, m2, l2) \<Rightarrow>
             (case attemptForward e req serviceName 2 g2 m2 of
                (Inr resp, g3, m3, l3) \<Rightarrow>
                  (Some resp, g3, m3,
                   l1 @ [AttemptFailed 1 (message e1)] @ l2 @ [AttemptFailed 2 (message e2)] @ l3)
              | (Inl e3, g3, m3, l3) \<Rightarrow>
                  (Some \<lparr>statusCode = 500,
                         body = ErrorJson
                           (''Service '' @ serviceName @ '' unavailable after '' @ show_nat 3 @ '' attempts'')
                           (message e3) (requestId req)\<rparr>, g3, m3,
                   l1 @ [AttemptFailed 1 (message e1)] @ l2 @ [AttemptFailed 2 (message e2)] @ l3
                     @ [AttemptFailed 3 (message e3), AllAttemptsFailed 3]))))"
  by (simp add: proxyRequest_def proxyLoop.simps maxAttempts_def numeral_2_eq_2 numeral_3_eq_3
      split: prod.splits sum.splits)

lemma serviceUrl_key: "serviceUrl s = ''http://'' @ serviceKey s"
  by (simp add: serviceUrl_def serviceKey_def)

lemma targets_append: "targets (xs @ ys) = targets xs @ targets ys"
  by (induction xs rule: targets.induct) simp_all

lemma failedAttempts_append: "failedAttempts (xs @ ys) = failedAttempts xs @ failedAttempts ys"
  by (induction xs rule: failedAttempts.induct) simp_all

lemma getCount_update:
  "getCount (AList.update k v rc) k' = (if k' = k then v else getCount rc k')"
  by (simp add: getCount_def update_conv')

section \<open>Request counts: one attempt, one call\<close>

lemma select_counts:
  assumes "selectFromDiscoveredServices g serviceName svcs = (r, g1)"
  shows "getCount (requestCounts g1) key
       = getCount (requestCounts g) key
         + (case r of Inl err \<Rightarrow> 0 | Inr t \<Rightarrow> if url t = ''http://'' @ key then 1 else 0)"
proof (cases "svcs = []")
  case True
  then show ?thesis
    using assms by (auto simp: selectFromDiscoveredServices_def)
next
  case False
  show ?thesis
  proof (cases "js_index svcs (js_mod (to_number (currentIndex g serviceName)) (length svcs))")
    case None
    then show ?thesis
      using assms False by (auto simp: selectFromDiscoveredServices_def Let_def)
  next
    case (Some s)
    then show ?thesis
      using assms False
      by (auto simp: selectFromDiscoveredServices_def Let_def getCount_update serviceUrl_key)
  qed
qed

lemma getNextService_counts:
  assumes "getNextService g d consul serviceName = (r, g1)"
  shows "getCount (requestCounts g1) key
       = getCount (requestCounts g) key
         + (case r of Inl err \<Rightarrow> 0 | Inr t \<Rightarrow> if url t = ''http://'' @ key then 1 else 0)"
proof (cases "discoverServices d consul serviceName = []")
  case True
  then show ?thesis
    using assms by (auto simp: getNextService_def)
next
  case False
  then show ?thesis
    using assms select_counts [of g serviceName "discoverServices d consul serviceName" r g1 key]
    by (simp add: getNextService_def)
qed

lemma attemptForward_counts:
  assumes "attemptForward e req serviceName k g m = (r, g1, m1, l)"
  shows "getCount (requestCounts g1) key
       = getCount (requestCounts g) key + count_list (targets l) (''http://'' @ key)"
proof -
  obtain r0 g0 where sel: "getNextService g (registry_at e k) (consul_at e k) serviceName = (r0, g0)"
    by (cases "getNextService g (registry_at e k) (consul_at e k) serviceName")
  note cnt = getNextService_counts [OF sel, of key]
  show ?thesis
  proof (cases r0)
    case (Inl err)
    then show ?thesis
      using assms sel cnt by (auto simp: attemptForward_def)
  next
    case (Inr t)
    then show ?thesis
      using assms sel cnt
      by (auto simp: attemptForward_def Let_def split: sum.splits prod.splits if_splits)
  qed
qed

lemma exec_registry_op_gw: "registry_op x \<Longrightarrow> gw (exec x s) = gw s"
  by (cases x) simp_all

lemma run_registry_ops_gw: "list_all registry_op ops \<Longrightarrow> gw (run ops s) = gw s"
  by (induction ops arbitrary: s) (simp_all add: exec_registry_op_gw)

lemma proxyRequest_counts:
  assumes "proxyRequest e req serviceName g m = (resp, g', m', lg)"
  shows "getCount (requestCounts g') key
           = getCount (requestCounts g) key + count_list (targets lg) (''http://'' @ key)"
proof -
  obtain r1 g1 m1 l1 where a1: "attemptForward e req serviceName 0 g m = (r1, g1, m1, l1)"
    by (metis prod_cases4)
  obtain r2 g2 m2 l2 where a2: "attemptForward e req serviceName 1 g1 m1 = (r2, g2, m2, l2)"
    by (metis prod_cases4)
  obtain r3 g3 m3 l3 where a3: "attemptForward e req serviceName 2 g2 m2 = (r3, g3, m3, l3)"
    by (metis prod_cases4)
  note c1 = attemptForward_counts [OF a1, of key]
  note c2 = attemptForward_counts [OF a2, of key]
  note c3 = attemptForward_counts [OF a3, of key]
  show ?thesis
  proof (cases r1)
    case (Inr x)
    then show ?thesis
      using assms a1 c1 by (auto simp: proxyRequest_unfold)
  next
    case e1: (Inl x1)
    show ?thesis
    proof (cases r2)
      case (Inr x)
      then show ?thesis
        using assms a1 a2 e1 c1 c2
        by (auto simp: proxyRequest_unfold targets_append simp del: One_nat_def)
    next
      case e2: (Inl x2)
      show ?thesis
      proof (cases r3)
        case (Inr x)
        then show ?thesis
          using assms a1 a2 a3 e1 e2 c1 c2 c3
          by (auto simp: proxyRequest_unfold targets_append simp del: One_nat_def)
      next
        case (Inl x3)
        then show ?thesis
          using assms a1 a2 a3 e1 e2 c1 c2 c3
          by (auto simp: proxyRequest_unfold targets_append simp del: One_nat_def)
      qed
    qed
  qed
qed

section \<open>The cursor table keeps its numbers\<close>








section \<open>Round robin over route calls\<close>






section \<open>No instances, failing forwards, exhausted attempts\<close>

lemma attemptForward_empty:
  "discoverServices (registry_at e k) (consul_at e k) serviceName = [] \<Longrightarrow>
   attemptForward e req serviceName k g m = (Inl (UndefinedProperty ''filter''), g, m, [])"
  by (simp add: attemptForward_not_selected getNextService_empty)

text \<open>
  C2, as stated, fails: with no instance registered, discovery is empty on every
  attempt, and the call still goes through three failed attempts before it answers.
\<close>

theorem empty_discovery_retried:
  "discoverServices (registry_at (refusing_env \<lparr>useConsul = False, services = []\<rparr>) 0)
       (consul_at (refusing_env \<lparr>useConsul = False, services = []\<rparr>) 0) ''user'' = [] \<and>
   failedAttempts
     (snd (snd (snd (proxyRequest (refusing_env \<lparr>useConsul = False, services = []\<rparr>) get_users
         ''user'' initial_gateway initial_mq))))
     = [1, 2, 3]"
proof -
  let ?e = "refusing_env \<lparr>useConsul = False, services = []\<rparr>"
  have empty: "discoverServices (registry_at ?e k) (consul_at ?e k) ''user'' = []" for k
    by (simp add: refusing_env_def discoverServices_def fallbackDiscover_def)
  show ?thesis
    by (simp add: proxyRequest_unfold attemptForward_empty [OF empty] empty del: One_nat_def)
qed

text \<open>
  C2, amended. When discovery returns no instance on each of the three attempts, the
  call makes three attempts, forwards nothing, leaves the gateway state as it was, and
  answers with status 500 and a body \<open>{error, message, requestId}\<close> whose \<open>error\<close>
  names the service and the three attempts; it does not crash.
\<close>

theorem no_instances_three_attempts:
  assumes "\<forall>k<maxAttempts. discoverServices (registry_at e k) (consul_at e k) serviceName = []"
  shows "\<exists>msg. proxyRequest e req serviceName g m =
     (Some \<lparr>statusCode = 500,
            body = ErrorJson
              (''Service '' @ serviceName @ '' unavailable after '' @ show_nat maxAttempts @ '' attempts'')
              msg (requestId req)\<rparr>,
      g, m,
      [AttemptFailed 1 msg, AttemptFailed 2 msg, AttemptFailed 3 msg, AllAttemptsFailed maxAttempts])"
proof -
  have e0: "discoverServices (registry_at e 0) (consul_at e 0) serviceName = []"
    and e1: "discoverServices (registry_at e 1) (consul_at e 1) serviceName = []"
    and e2: "discoverServices (registry_at e 2) (consul_at e 2) serviceName = []"
    using assms by (simp_all add: maxAttempts_def)
  show ?thesis
    by (simp add: proxyRequest_unfold attemptForward_empty [OF e0] attemptForward_empty [OF e1]
        attemptForward_empty [OF e2] maxAttempts_def del: One_nat_def)
qed

theorem no_instances_three_attempts_witness:
  "(\<forall>k.
      discoverServices (registry_at (refusing_env \<lparr>useConsul = False, services = []\<rparr>) k)
        (consul_at (refusing_env \<lparr>useConsul = False, services = []\<rparr>) k) ''order'' = []) \<and>
   (\<exists>msg. proxyRequest (refusing_env \<lparr>useConsul = False, services = []\<rparr>) get_users ''order''
        initial_gateway initial_mq =
     (Some \<lparr>statusCode = 500,
            body = ErrorJson ''Service order unavailable after 3 attempts'' msg ''req-1''\<rparr>,
      initial_gateway, initial_mq,
      [AttemptFailed 1 msg, AttemptFailed 2 msg, AttemptFailed 3 msg, AllAttemptsFailed 3]))"
proof -
  let ?e = "refusing_env \<lparr>useConsul = False, services = []\<rparr>"
  have all: "\<forall>k. discoverServices (registry_at ?e k) (consul_at ?e k) ''order'' = []"
    by (simp add: refusing_env_def discoverServices_def fallbackDiscover_def)
  then have empty:
    "\<forall>k<maxAttempts. discoverServices (registry_at ?e k) (consul_at ?e k) ''order'' = []"
    by simp
  have three: "show_nat 3 = ''3''"
    by (simp add: show_nat.simps digit_char_def)
  show ?thesis
    using no_instances_three_attempts [OF empty, of get_users initial_gateway initial_mq] all
    by (simp add: three get_users_def maxAttempts_def)
qed


lemma attemptForward_log:
  "attemptForward e req serviceName k g m = (r, g1, m1, l) \<Longrightarrow> failedAttempts l = []"
  by (auto simp: attemptForward_def Let_def split: prod.splits sum.splits)

text \<open>
  C3, as stated, fails: an instance that answers 404 is asked three times, and the
  caller gets the gateway's own 500 answer, not the 404.
\<close>

theorem application_error_retried:
  "network_at (answering_env single_registry 404 ''not found'') 0
       (''http://localhost:3002'' @ req_path get_users) = Reply 404 ''not found'' \<and>
   fst (proxyRequest (answering_env single_registry 404 ''not found'') get_users ''user''
          initial_gateway initial_mq)
     = Some \<lparr>statusCode = 500,
             body = ErrorJson ''Service user unavailable after 3 attempts''
                      ''Request failed with status code 404'' ''req-1''\<rparr> \<and>
   targets (snd (snd (snd (proxyRequest (answering_env single_registry 404 ''not found'') get_users
          ''user'' initial_gateway initial_mq))))
     = [''http://localhost:3002'', ''http://localhost:3002'', ''http://localhost:3002'']"
  by (simp add: proxyRequest_unfold attemptForward_def getNextService_def
      selectFromDiscoveredServices_def single_registry_def registerService_def fallbackRegister_def
      discoverServices_def fallbackDiscover_def answering_env_def initial_gateway_def
      initial_mq_def initial_system_def publishEvent_def getQueue_def queue_add_def try_catch_def
      axios_const_Reply validateStatus_def to_number_def js_mod_def js_add1_def js_index_def getCount_def
      serviceKey_def serviceUrl_def show_nat.simps digit_char_def get_users_def message_def Let_def)

text \<open>
  C3, amended. When the selected instance answers attempt \<open>k\<close> with a response that the
  client takes as it is (every status outside 3xx, and a 3xx with no \<^verbatim>\<open>Location\<close>):
  with a status from 200 to 299 the call returns that status and body unchanged and
  makes no further attempt; with any other status, every 4xx and 5xx among them, the
  attempt counts as failed, and the call goes on to the next attempt, or, on the third,
  answers 500 with its own error body. A 3xx answer with a \<^verbatim>\<open>Location\<close> is followed
  by the client (\<open>redirect_is_followed\<close>) and is not covered here.
\<close>

theorem forward_reply_handling:
  assumes "k < maxAttempts"
    and "getNextService g (registry_at e k) (consul_at e k) serviceName = (Inr t, g1)"
    and "network_at e k (url t @ req_path req) = Reply st dat"
  shows "\<exists>m1. proxyLoop e req serviceName k g m lg =
     (if validateStatus st
      then (Some \<lparr>statusCode = st, body = Passthrough dat\<rparr>, g1, m1,
            lg @ [Proxying (k + 1) (url t), Completed (url t) st])
      else if k + 1 = maxAttempts
      then (Some \<lparr>statusCode = 500,
                  body = ErrorJson
                    (''Service '' @ serviceName @ '' unavailable after ''
                       @ show_nat maxAttempts @ '' attempts'')
                    (''Request failed with status code '' @ show_nat st) (requestId req)\<rparr>,
            g1, m1,
            lg @ [Proxying (k + 1) (url t),
                  AttemptFailed (k + 1) (''Request failed with status code '' @ show_nat st),
                  AllAttemptsFailed maxAttempts])
      else proxyLoop e req serviceName (k + 1) g1 m1
             (lg @ [Proxying (k + 1) (url t),
                    AttemptFailed (k + 1) (''Request failed with status code '' @ show_nat st)]))"
proof -
  obtain m1 where att: "attemptForward e req serviceName k g m =
     (case axios (maxRedirects e) (network_at e k) (url t @ req_path req) of
        Inl err \<Rightarrow> (Inl err, g1, m1, [Proxying (k + 1) (url t)])
      | Inr (st', dat') \<Rightarrow>
          (Inr \<lparr>statusCode = st', body = Passthrough dat'\<rparr>, g1, m1,
           [Proxying (k + 1) (url t), Completed (url t) st']))"
    using attemptForward_selected [OF assms(2), of req m] by auto
  note ax = axios_Reply [where net = "network_at e k" and u = "url t @ req_path req"
      and r = "maxRedirects e", OF assms(3)]
  show ?thesis
  proof (cases "validateStatus st")
    case True
    then show ?thesis
      using assms(1) att by (subst proxyLoop.simps) (auto simp: ax)
  next
    case False
    then show ?thesis
      using assms(1) att by (subst proxyLoop.simps) (auto simp: ax message_def)
  qed
qed

theorem forward_reply_handling_witness:
  "0 < maxAttempts \<and>
   fst (getNextService initial_gateway single_registry (Inl ''Consul not available'') ''user'')
     = Inr \<lparr>url = ''http://localhost:3002'', t_healthy = True, requests = 1\<rparr> \<and>
   network_at (answering_env single_registry 201 ''created'') 0
       (''http://localhost:3002'' @ req_path get_users) = Reply 201 ''created'' \<and>
   validateStatus 201 \<and>
   fst (proxyLoop (answering_env single_registry 201 ''created'') get_users ''user'' 0
          initial_gateway initial_mq [])
     = Some \<lparr>statusCode = 201, body = Passthrough ''created''\<rparr>"
proof -
  let ?e = "answering_env single_registry 201 ''created''"
  let ?t = "\<lparr>url = ''http://localhost:3002'', t_healthy = True, requests = 1\<rparr>"
  have pos: "0 < maxAttempts"
    by (simp add: maxAttempts_def)
  obtain g1 where sel: "getNextService initial_gateway (registry_at ?e 0) (consul_at ?e 0) ''user''
      = (Inr ?t, g1)"
    by (simp add: getNextService_def selectFromDiscoveredServices_def single_registry_def
        registerService_def fallbackRegister_def discoverServices_def fallbackDiscover_def
        answering_env_def initial_gateway_def to_number_def js_mod_def js_add1_def js_index_def
        getCount_def serviceKey_def serviceUrl_def show_nat.simps digit_char_def Let_def)
  have sel': "fst (getNextService initial_gateway single_registry (Inl ''Consul not available'') ''user'')
      = Inr ?t"
    using sel by (simp add: answering_env_def)
  have net: "network_at ?e 0 (url ?t @ req_path get_users) = Reply 201 ''created''"
    by (simp add: answering_env_def)
  have ok: "validateStatus 201"
    by (simp add: validateStatus_def)
  show ?thesis
    using forward_reply_handling [OF pos sel net, of initial_mq "[]"] pos sel' net ok
    by auto
qed

text \<open>
  C4, as stated, fails on the status: when all three attempts fail the answer has
  status 500, not 503.
\<close>

theorem exhausted_status_is_500:
  "failedAttempts (snd (snd (snd (proxyRequest (refusing_env single_registry) get_users ''user''
       initial_gateway initial_mq)))) = [1, 2, 3] \<and>
   map_option statusCode (fst (proxyRequest (refusing_env single_registry) get_users ''user''
       initial_gateway initial_mq)) = Some 500 \<and>
   map_option statusCode (fst (proxyRequest (refusing_env single_registry) get_users ''user''
       initial_gateway initial_mq)) \<noteq> Some 503"
  by (simp add: proxyRequest_unfold attemptForward_def getNextService_def
      selectFromDiscoveredServices_def single_registry_def registerService_def fallbackRegister_def
      discoverServices_def fallbackDiscover_def refusing_env_def initial_gateway_def
      initial_mq_def initial_system_def publishEvent_def getQueue_def queue_add_def try_catch_def
      axios_const_NoReply to_number_def js_mod_def js_add1_def js_index_def getCount_def
      serviceKey_def serviceUrl_def show_nat.simps digit_char_def get_users_def message_def Let_def)

text \<open>
  C4, amended. When a route call has used up its three attempts (its log holds three
  failed attempts), the caller receives status 500 with a body
  \<open>{error, message, requestId}\<close>: \<open>error\<close> names the service and the number of attempts,
  \<open>message\<close> is the message of the error of the last attempt.
\<close>

theorem retries_exhausted_response:
  assumes "proxyRequest e req serviceName g m = (resp, g', m', lg)"
    and "length (failedAttempts lg) = maxAttempts"
  shows "\<exists>msg pre.
      resp = Some \<lparr>statusCode = 500,
                   body = ErrorJson
                     (''Service '' @ serviceName @ '' unavailable after ''
                        @ show_nat maxAttempts @ '' attempts'')
                     msg (requestId req)\<rparr>
    \<and> lg = pre @ [AttemptFailed maxAttempts msg, AllAttemptsFailed maxAttempts]"
proof -
  obtain r1 g1 m1 l1 where a1: "attemptForward e req serviceName 0 g m = (r1, g1, m1, l1)"
    by (metis prod_cases4)
  obtain r2 g2 m2 l2 where a2: "attemptForward e req serviceName 1 g1 m1 = (r2, g2, m2, l2)"
    by (metis prod_cases4)
  obtain r3 g3 m3 l3 where a3: "attemptForward e req serviceName 2 g2 m2 = (r3, g3, m3, l3)"
    by (metis prod_cases4)
  note nf = attemptForward_log [OF a1] attemptForward_log [OF a2] attemptForward_log [OF a3]
  show ?thesis
  proof (cases r1)
    case (Inr x)
    then show ?thesis
      using assms a1 nf by (simp add: proxyRequest_unfold maxAttempts_def)
  next
    case e1: (Inl x1)
    show ?thesis
    proof (cases r2)
      case (Inr x)
      then show ?thesis
        using assms a1 a2 e1 nf
        by (auto simp: proxyRequest_unfold maxAttempts_def failedAttempts_append simp del: One_nat_def)
    next
      case e2: (Inl x2)
      show ?thesis
      proof (cases r3)
        case (Inr x)
        then show ?thesis
          using assms a1 a2 a3 e1 e2 nf
          by (auto simp: proxyRequest_unfold maxAttempts_def failedAttempts_append simp del: One_nat_def)
      next
        case e3: (Inl x3)
        have "lg = (l1 @ [AttemptFailed 1 (message x1)] @ l2 @ [AttemptFailed 2 (message x2)] @ l3)
                @ [AttemptFailed maxAttempts (message x3), AllAttemptsFailed maxAttempts]"
          and "resp = Some \<lparr>statusCode = 500,
                   body = ErrorJson
                     (''Service '' @ serviceName @ '' unavailable after ''
                        @ show_nat maxAttempts @ '' attempts'')
                     (message x3) (requestId req)\<rparr>"
          using assms(1) a1 a2 a3 e1 e2 e3
          by (auto simp: proxyRequest_unfold maxAttempts_def simp del: One_nat_def)
        then show ?thesis by blast
      qed
    qed
  qed
qed

theorem retries_exhausted_response_witness:
  "length (failedAttempts (snd (snd (snd (proxyRequest (refusing_env abc_registry) get_users
       ''user'' initial_gateway initial_mq))))) = maxAttempts \<and>
   (\<exists>msg pre.
      fst (proxyRequest (refusing_env abc_registry) get_users ''user'' initial_gateway initial_mq)
        = Some \<lparr>statusCode = 500,
                body = ErrorJson ''Service user unavailable after 3 attempts'' msg ''req-1''\<rparr>
    \<and> snd (snd (snd (proxyRequest (refusing_env abc_registry) get_users ''user''
          initial_gateway initial_mq)))
        = pre @ [AttemptFailed 3 msg, AllAttemptsFailed 3])"
proof -
  let ?call = "proxyRequest (refusing_env abc_registry) get_users ''user'' initial_gateway initial_mq"
  have three: "show_nat 3 = ''3''"
    by (simp add: show_nat.simps digit_char_def)
  have lg: "failedAttempts (snd (snd (snd ?call))) = [1, 2, 3]"
    by (simp add: proxyRequest_unfold attemptForward_def getNextService_def
      selectFromDiscoveredServices_def abc_registry_def registerService_def fallbackRegister_def
      discoverServices_def fallbackDiscover_def refusing_env_def initial_gateway_def
      initial_mq_def initial_system_def publishEvent_def getQueue_def queue_add_def try_catch_def
      axios_const_NoReply to_number_def js_mod_def js_add1_def js_index_def getCount_def
      serviceKey_def serviceUrl_def show_nat.simps digit_char_def get_users_def message_def Let_def)
  obtain resp g' m' l where call: "?call = (resp, g', m', l)"
    by (metis prod_cases4)
  have len: "length (failedAttempts l) = maxAttempts"
    using lg call by (simp add: maxAttempts_def)
  show ?thesis
    using retries_exhausted_response [OF call len] len call
    by (simp add: three maxAttempts_def get_users_def)
qed

section \<open>Request counts of a route call\<close>

text \<open>
  C5, as stated, fails: with one registered instance that refuses every connection, no
  forward succeeds, and the count of that instance goes from 0 to 3.
\<close>

theorem failed_forwards_counted:
  "map_option statusCode (fst (proxyRequest (refusing_env single_registry) get_users ''user''
       initial_gateway initial_mq)) = Some 500 \<and>
   getCount (requestCounts initial_gateway) ''localhost:3002'' = 0 \<and>
   getCount (requestCounts (fst (snd (proxyRequest (refusing_env single_registry) get_users ''user''
       initial_gateway initial_mq)))) ''localhost:3002'' = 3"
  by (simp add: proxyRequest_unfold attemptForward_def getNextService_def
      selectFromDiscoveredServices_def single_registry_def registerService_def fallbackRegister_def
      discoverServices_def fallbackDiscover_def refusing_env_def initial_gateway_def
      initial_mq_def initial_system_def publishEvent_def getQueue_def queue_add_def try_catch_def
      axios_const_NoReply to_number_def js_mod_def js_add1_def js_index_def getCount_def
      serviceKey_def serviceUrl_def show_nat.simps digit_char_def get_users_def message_def Let_def)

text \<open>
  C5, amended. During a route call the request count of an instance grows by one each
  time the selection policy picks it, before the request is forwarded and whatever the
  forward's outcome: after the call, the count under every key is the count before
  plus the number of attempts that targeted that key. Registering, deregistering, health
  checks and the stats handler leave every count as it is.
\<close>

theorem requestCount_counts_selections:
  assumes "proxyRequest e req serviceName g m = (resp, g', m', lg)"
  shows "getCount (requestCounts g') key
           = getCount (requestCounts g) key + count_list (targets lg) (''http://'' @ key)
       \<and> requestCounts (gw (exec (Register name ident prt now consulOk) s)) = requestCounts (gw s)
       \<and> requestCounts (gw (exec (Deregister ident) s)) = requestCounts (gw s)
       \<and> requestCounts (gw (exec (HealthCheck probe now) s)) = requestCounts (gw s)
       \<and> requestCounts (gw (exec Stats s)) = requestCounts (gw s)"
  using proxyRequest_counts [OF assms, of key] by simp

theorem requestCount_counts_selections_witness:
  "getCount (requestCounts (fst (snd (proxyRequest (refusing_env single_registry) get_users ''user''
       initial_gateway initial_mq)))) ''localhost:3002''
     = getCount (requestCounts initial_gateway) ''localhost:3002''
       + count_list (targets (snd (snd (snd (proxyRequest (refusing_env single_registry) get_users
           ''user'' initial_gateway initial_mq))))) ''http://localhost:3002'' \<and>
   targets (snd (snd (snd (proxyRequest (refusing_env single_registry) get_users
           ''user'' initial_gateway initial_mq))))
     = [''http://localhost:3002'', ''http://localhost:3002'', ''http://localhost:3002''] \<and>
   requestCounts (gw (exec (Deregister ''A'') initial_system)) = []"
proof -
  let ?call = "proxyRequest (refusing_env single_registry) get_users ''user'' initial_gateway initial_mq"
  obtain resp g' m' l where call: "?call = (resp, g', m', l)"
    by (metis prod_cases4)
  have tg: "targets (snd (snd (snd ?call)))
     = [''http://localhost:3002'', ''http://localhost:3002'', ''http://localhost:3002'']"
    by (simp add: proxyRequest_unfold attemptForward_def getNextService_def
      selectFromDiscoveredServices_def single_registry_def registerService_def fallbackRegister_def
      discoverServices_def fallbackDiscover_def refusing_env_def initial_gateway_def
      initial_mq_def initial_system_def publishEvent_def getQueue_def queue_add_def try_catch_def
      axios_const_NoReply to_number_def js_mod_def js_add1_def js_index_def getCount_def
      serviceKey_def serviceUrl_def show_nat.simps digit_char_def get_users_def message_def Let_def)
  have init: "requestCounts (gw initial_system) = []"
    by (simp add: initial_system_def initial_gateway_def)
  show ?thesis
    using requestCount_counts_selections
        [OF call, where key = "''localhost:3002''" and s = initial_system and ident = "''A''"]
      call tg init
    by simp
qed


section \<open>The round-robin cursor\<close>

text \<open>
  C6, as stated, fails: register A, B, C for the user service, select twice (the cursor
  is 2), deregister C. Two instances are left and the cursor is still 2.
\<close>

theorem cursor_not_below_count_after_deregister:
  "currentIndex (gw (run [Register ''user'' ''A'' 3002 1000 True, Register ''user'' ''B'' 3003 1001 True,
        Register ''user'' ''C'' 3004 1002 True, Select ''user'' (Inl ''Consul not available''),
        Select ''user'' (Inl ''Consul not available''), Deregister ''C''] initial_system)) ''user''
     = Some (Num 2) \<and>
   length (discoverServices (disc (run [Register ''user'' ''A'' 3002 1000 True,
        Register ''user'' ''B'' 3003 1001 True, Register ''user'' ''C'' 3004 1002 True,
        Select ''user'' (Inl ''Consul not available''), Select ''user'' (Inl ''Consul not available''),
        Deregister ''C''] initial_system)) (Inl ''Consul not available'') ''user'')
     = 2"
  by (simp add: initial_system_def initial_gateway_def registerService_def fallbackRegister_def
      deregisterService_def splice1_def discoverServices_def fallbackDiscover_def
      getNextService_def selectFromDiscoveredServices_def to_number_def js_mod_def js_add1_def
      js_index_def Let_def)

text \<open>
  C6, amended. Register, deregister, health-check and stats operations, in any number
  and order, leave the cursor table as it is; only selection writes to it. A selection
  for a service whose cursor holds the number \<open>c\<close>, over a non-empty list of \<open>n\<close>
  discovered instances, sets the cursor to \<open>(c + 1) mod n\<close>, so right after every
  selection the cursor is below the number of instances that selection ran over.
\<close>

theorem cursor_after_selection:
  assumes "list_all registry_op ops"
    and "currentIndex (gw s) serviceName = Some (Num c)"
    and "discoverServices (disc (run ops s)) consul serviceName = svcs"
    and "svcs \<noteq> []"
  shows "currentIndex (gw (run ops s)) = currentIndex (gw s)
       \<and> currentIndex (gw (exec (Select serviceName consul) (run ops s))) serviceName
           = Some (Num ((c + 1) mod length svcs))
       \<and> (c + 1) mod length svcs < length svcs"
proof -
  have same: "gw (run ops s) = gw s"
    using assms(1) by (rule run_registry_ops_gw)
  have cur: "currentIndex (gw (run ops s)) serviceName = Some (Num c)"
    using assms(2) same by simp
  have "currentIndex (gw (exec (Select serviceName consul) (run ops s))) serviceName
           = Some (Num ((c + 1) mod length svcs))"
    using getNextService_at_cursor [OF cur assms(3) assms(4)] by simp
  moreover have "(c + 1) mod length svcs < length svcs"
    using assms(4) by simp
  ultimately show ?thesis
    using same by simp
qed

theorem cursor_after_selection_witness:
  "list_all registry_op [Register ''user'' ''A'' 3002 1000 True, Register ''user'' ''B'' 3003 1001 True,
      Deregister ''A'', Register ''user'' ''C'' 3004 1002 True] \<and>
   currentIndex (gw initial_system) ''user'' = Some (Num 0) \<and>
   map inst_id (discoverServices (disc (run [Register ''user'' ''A'' 3002 1000 True,
      Register ''user'' ''B'' 3003 1001 True, Deregister ''A'',
      Register ''user'' ''C'' 3004 1002 True] initial_system)) (Inl ''Consul not available'') ''user'')
     = [''B'', ''C''] \<and>
   currentIndex (gw (exec (Select ''user'' (Inl ''Consul not available''))
      (run [Register ''user'' ''A'' 3002 1000 True, Register ''user'' ''B'' 3003 1001 True,
        Deregister ''A'', Register ''user'' ''C'' 3004 1002 True] initial_system))) ''user''
     = Some (Num 1)"
proof -
  let ?ops = "[Register ''user'' ''A'' 3002 1000 True, Register ''user'' ''B'' 3003 1001 True,
      Deregister ''A'', Register ''user'' ''C'' 3004 1002 True]"
  let ?svcs = "[\<lparr>inst_id = ''B'', address = ''localhost'', port = 3003, healthy = True, lastCheck = Some 1001\<rparr>,
      \<lparr>inst_id = ''C'', address = ''localhost'', port = 3004, healthy = True, lastCheck = Some 1002\<rparr>]"
  have ops: "list_all registry_op ?ops"
    by simp
  have cur: "currentIndex (gw initial_system) ''user'' = Some (Num 0)"
    by (simp add: initial_system_def initial_gateway_def)
  have svcs: "discoverServices (disc (run ?ops initial_system)) (Inl ''Consul not available'') ''user''
      = ?svcs"
    by (simp add: initial_system_def registerService_def fallbackRegister_def
        deregisterService_def splice1_def discoverServices_def fallbackDiscover_def Let_def)
  have ne: "?svcs \<noteq> []"
    by simp
  have ids: "map inst_id (discoverServices (disc (run ?ops initial_system))
      (Inl ''Consul not available'') ''user'') = [''B'', ''C'']"
    unfolding svcs by simp
  have sel: "currentIndex (gw (exec (Select ''user'' (Inl ''Consul not available''))
      (run ?ops initial_system))) ''user'' = Some (Num 1)"
    using cursor_after_selection [OF ops cur svcs ne] by simp
  show ?thesis
    using ops cur ids sel by blast
qed

section \<open>The stats handler\<close>

text \<open>
  C7. The snapshot the handler sends holds no service at all, in every state of the
  gateway and of discovery: the response is built before the \<^verbatim>\<open>then\<close> callback runs.
  With Consul reporting one passing user instance, what the callback stores afterwards
  does hold that instance, with its health state and count.
\<close>

theorem stats_snapshot_has_no_instances:
  "stats_services (statsHandler g d m) = [] \<and>
   statsCallback initial_gateway \<lparr>useConsul = True, services = []\<rparr>
       (\<lambda>n. if n = ''user'' then Inr [(''user-service-3002'', ''localhost'', 3002)] else Inr [])
     = [(''user'', [\<lparr>url = ''http://localhost:3002'', t_healthy = True, requests = 0\<rparr>]),
        (''product'', []), (''order'', [])]"
  by (simp add: statsCallback_def statsHandler_def statsEntry_def discoverServices_def
      initial_gateway_def getCount_def serviceUrl_def serviceKey_def show_nat.simps
      digit_char_def Let_def)

section \<open>Jobs of the in-memory queue\<close>

lemma no_processors_getQueue:
  "no_processors m \<Longrightarrow> getQueue m name = Some (FallbackQueue ps) \<Longrightarrow> ps = []"
  by (auto simp: no_processors_def getQueue_def list_all_iff dest!: map_of_SomeD)

lemma list_all_update:
  "list_all P xs \<Longrightarrow> P (k, v) \<Longrightarrow> list_all P (AList.update k v xs)"
  by (induction xs) auto

lemma no_processors_update:
  assumes "no_processors m" and "q = BullQueue \<or> q = FallbackQueue []"
  shows "no_processors (m\<lparr>queues := AList.update name q (queues m)\<rparr>)"
  using assms by (auto simp: no_processors_def intro!: list_all_update)

lemma no_processors_createQueue: "no_processors m \<Longrightarrow> no_processors (snd (createQueue m name))"
  by (simp add: createQueue_def no_processors_update)

lemma queues_fallback_process: "queues (fallback_process m x) = queues m"
  by (simp add: fallback_process_def Let_def)

lemma no_processors_subscribe:
  "no_processors m \<Longrightarrow> no_processors (subscribeToEvents m eventName handler)"
  using no_processors_createQueue [of m "''events''"]
  by (auto simp: subscribeToEvents_def Let_def no_processors_def queues_fallback_process
      split: option.splits prod.splits queue.splits)

lemma no_processors_publish:
  "no_processors m \<Longrightarrow> publishEvent m bull eventName dat = Inr (m1, p) \<Longrightarrow> no_processors m1"
  using no_processors_createQueue [of m "''events''"]
  by (auto simp: publishEvent_def Let_def try_catch_def
      split: option.splits prod.splits sum.splits)

lemma no_processors_exec:
  assumes "no_processors m"
  shows "no_processors (mq_exec x m)"
proof (cases x)
  case (SetRedis b)
  then show ?thesis
    using assms by (simp add: no_processors_def)
next
  case (CreateQueue name)
  then show ?thesis
    using assms by (simp add: no_processors_createQueue)
next
  case (Subscribe eventName handler)
  then show ?thesis
    using assms by (simp add: no_processors_subscribe)
next
  case (Publish bull eventName dat)
  show ?thesis
  proof (cases "publishEvent m bull eventName dat")
    case (Inl err)
    then show ?thesis
      using assms Publish by simp
  next
    case (Inr r)
    obtain m1 p where "r = (m1, p)"
      by (cases r)
    then show ?thesis
      using assms Publish Inr no_processors_publish [of m bull eventName dat m1 p] by simp
  qed
qed

lemma no_processors_run: "no_processors m \<Longrightarrow> no_processors (mq_run ops m)"
proof (induction ops arbitrary: m)
  case Nil
  then show ?case by simp
next
  case (Cons x ops)
  then show ?case
    using no_processors_exec [of m x] by simp
qed

lemma no_processors_initial: "no_processors initial_mq"
  by (simp add: no_processors_def initial_mq_def initial_system_def)

lemma processFallbackJob_no_processors:
  assumes "no_processors m"
  shows "processFallbackJob_trace m queueName j = []"
proof (cases "getQueue m queueName")
  case None
  then show ?thesis by (simp add: processFallbackJob_trace_def)
next
  case (Some q)
  then show ?thesis
    using no_processors_getQueue [OF assms, of queueName]
    by (cases q) (simp_all add: processFallbackJob_trace_def)
qed

text \<open>
  The loop itself, given two handlers of which the first throws: the job is set to
  failed and then to completed.
\<close>

lemma loop_goes_on_after_failure:
  "map status (runProcessors [\<lambda>j. Some ''handler failed'', \<lambda>j. None] new_job)
     = [processing, failed, processing, completed]"
  by (simp add: new_job_def Let_def)

text \<open>
  C8. In local mode no job reaches \<^verbatim>\<open>processing\<close>, \<^verbatim>\<open>completed\<close> or \<^verbatim>\<open>failed\<close>.
  Whatever queues are created, handlers subscribed and events published from the
  gateway's start, the \<^verbatim>\<open>processors\<close> array that \<^verbatim>\<open>processFallbackJob\<close> reads stays
  empty, so the function writes nothing to a job, whichever handler was subscribed; and
  with a throwing handler subscribed, publishing an event in local mode fails inside
  \<^verbatim>\<open>add\<close>, before a job is stored or scheduled: the manager is as before and the
  failure is logged.
\<close>

theorem local_jobs_never_processed:
  "processFallbackJob_trace (mq_run ops initial_mq) queueName j = []
   \<and> processFallbackJob (mq_run ops initial_mq) queueName j = j
   \<and> getQueue subscribed_mq ''events'' = Some (FallbackQueue [])
   \<and> publishEvent subscribed_mq bull ''request.proxied'' dat = Inr (subscribed_mq, False)"
proof -
  have tr: "processFallbackJob_trace (mq_run ops initial_mq) queueName j = []"
    using processFallbackJob_no_processors [OF no_processors_run [OF no_processors_initial]] .
  have q: "getQueue subscribed_mq ''events'' = Some (FallbackQueue [])"
    by (simp add: subscribed_mq_def subscribeToEvents_def initial_mq_def initial_system_def
        getQueue_def fallback_process_def Let_def)
  have pub: "publishEvent subscribed_mq bull ''request.proxied'' dat = Inr (subscribed_mq, False)"
    using q by (simp add: publishEvent_def queue_add_def try_catch_def)
  show ?thesis
    using tr q pub by (simp add: processFallbackJob_def)
qed

section \<open>Publishing never reaches the caller as an exception\<close>

lemma attemptForward_publish_independent:
  "\<exists>r g1 l m1 m1'.
      attemptForward e req serviceName k g m = (r, g1, m1, l) \<and>
      attemptForward (e\<lparr>bull_at := b\<rparr>) req serviceName k g m' = (r, g1, m1', l)"
proof (cases "getNextService g (registry_at e k) (consul_at e k) serviceName")
  case (Pair r0 g0)
  show ?thesis
  proof (cases r0)
    case (Inl err)
    then show ?thesis using Pair by (simp add: attemptForward_def)
  next
    case (Inr t)
    obtain m1 p1 where p: "publishEvent m (bull_at e k) ''request.proxied'' (url t) = Inr (m1, p1)"
      using publishEvent_returns by blast
    obtain m2 p2 where p': "publishEvent m' (b k) ''request.proxied'' (url t) = Inr (m2, p2)"
      using publishEvent_returns by blast
    show ?thesis
      using Pair Inr p p' by (auto simp: attemptForward_def Let_def split: sum.splits prod.splits)
  qed
qed

text \<open>
  C9. \<open>publishEvent\<close> returns to its caller for every input, whatever the queue does
  with the event. And what a route call answers, the state it leaves in the gateway and
  its log, attempt numbers included, are the same whatever the broker answers to the
  audit events and whatever the queue manager's state: a failed publish neither fails
  the request nor uses up an attempt.
\<close>

theorem publish_never_fails_route:
  "(\<exists>m1 published. publishEvent m bull eventName dat = Inr (m1, published))
   \<and> fst (proxyRequest (e\<lparr>bull_at := b\<rparr>) req serviceName g m')
       = fst (proxyRequest e req serviceName g m)
   \<and> fst (snd (proxyRequest (e\<lparr>bull_at := b\<rparr>) req serviceName g m'))
       = fst (snd (proxyRequest e req serviceName g m))
   \<and> snd (snd (snd (proxyRequest (e\<lparr>bull_at := b\<rparr>) req serviceName g m')))
       = snd (snd (snd (proxyRequest e req serviceName g m)))"
proof -
  let ?e' = "e\<lparr>bull_at := b\<rparr>"
  obtain r1 g1 l1 m1 m1' where
    a1: "attemptForward e req serviceName 0 g m = (r1, g1, m1, l1)" and
    b1: "attemptForward ?e' req serviceName 0 g m' = (r1, g1, m1', l1)"
    using attemptForward_publish_independent [of e req serviceName 0 g m b m'] by blast
  obtain r2 g2 l2 m2 m2' where
    a2: "attemptForward e req serviceName 1 g1 m1 = (r2, g2, m2, l2)" and
    b2: "attemptForward ?e' req serviceName 1 g1 m1' = (r2, g2, m2', l2)"
    using attemptForward_publish_independent [of e req serviceName 1 g1 m1 b m1'] by blast
  obtain r3 g3 l3 m3 m3' where
    a3: "attemptForward e req serviceName 2 g2 m2 = (r3, g3, m3, l3)" and
    b3: "attemptForward ?e' req serviceName 2 g2 m2' = (r3, g3, m3', l3)"
    using attemptForward_publish_independent [of e req serviceName 2 g2 m2 b m2'] by blast
  have "fst (proxyRequest ?e' req serviceName g m') = fst (proxyRequest e req serviceName g m)
   \<and> fst (snd (proxyRequest ?e' req serviceName g m')) = fst (snd (proxyRequest e req serviceName g m))
   \<and> snd (snd (snd (proxyRequest ?e' req serviceName g m')))
       = snd (snd (snd (proxyRequest e req serviceName g m)))"
    using a1 b1 a2 b2 a3 b3
    by (cases r1; cases r2; cases r3) (simp_all add: proxyRequest_unfold del: One_nat_def)
  then show ?thesis
    using publishEvent_returns [of m bull eventName dat] by blast
qed

theorem publish_never_fails_route_witness:
  "publishEvent \<lparr>useRedis = True, queues = [], fallbackQueue_processors = None\<rparr> (Some ''Connection is closed.'')
      ''request.proxied'' ''http://localhost:3002''
     = Inr (\<lparr>useRedis = True, queues = [(''events'', BullQueue)],
            fallbackQueue_processors = None\<rparr>, False) \<and>
   fst (proxyRequest ((answering_env single_registry 200 ''ok'')\<lparr>bull_at := (\<lambda>k. Some ''Connection is closed.'')\<rparr>)
          get_users ''user'' initial_gateway \<lparr>useRedis = True, queues = [], fallbackQueue_processors = None\<rparr>)
     = Some \<lparr>statusCode = 200, body = Passthrough ''ok''\<rparr> \<and>
   failedAttempts (snd (snd (snd (proxyRequest
          ((answering_env single_registry 200 ''ok'')\<lparr>bull_at := (\<lambda>k. Some ''Connection is closed.'')\<rparr>)
          get_users ''user'' initial_gateway \<lparr>useRedis = True, queues = [], fallbackQueue_processors = None\<rparr>))))
     = []"
proof -
  let ?e = "answering_env single_registry 200 ''ok''"
  have pub: "publishEvent \<lparr>useRedis = True, queues = [], fallbackQueue_processors = None\<rparr> (Some ''Connection is closed.'')
      ''request.proxied'' ''http://localhost:3002''
     = Inr (\<lparr>useRedis = True, queues = [(''events'', BullQueue)],
            fallbackQueue_processors = None\<rparr>, False)"
    by (simp add: publishEvent_def getQueue_def createQueue_def queue_add_def try_catch_def)
  have plain: "fst (proxyRequest ?e get_users ''user'' initial_gateway initial_mq)
       = Some \<lparr>statusCode = 200, body = Passthrough ''ok''\<rparr>
     \<and> failedAttempts (snd (snd (snd (proxyRequest ?e get_users ''user'' initial_gateway initial_mq))))
       = []"
    by (simp add: proxyRequest_unfold attemptForward_def getNextService_def
      selectFromDiscoveredServices_def single_registry_def registerService_def fallbackRegister_def
      discoverServices_def fallbackDiscover_def answering_env_def initial_gateway_def
      initial_mq_def initial_system_def publishEvent_def getQueue_def queue_add_def try_catch_def
      axios_const_Reply validateStatus_def to_number_def js_mod_def js_add1_def js_index_def getCount_def
      serviceKey_def serviceUrl_def show_nat.simps digit_char_def get_users_def message_def Let_def)
  show ?thesis
    using publish_never_fails_route [where e = ?e
        and b = "\<lambda>k. Some ''Connection is closed.''" and req = get_users
        and serviceName = "''user''" and g = initial_gateway
        and m' = "\<lparr>useRedis = True, queues = [], fallbackQueue_processors = None\<rparr>" and m = initial_mq]
      pub plain
    by simp
qed

end
